theory Spec2Isabelle
  imports Main "HOL-Library.Word"
begin

unbundle bit_operations_syntax

section \<open>The my\_mmap driver: data model\<close>

text \<open>
  The driver in \<^verbatim>\<open>driver/my_mmap_drv.c\<close> is kernel C. Pointers and \<^verbatim>\<open>unsigned long\<close>
  are 64-bit words (an LP64 kernel), \<^verbatim>\<open>int\<close> is a 32-bit word read with \<open>sint\<close>.
  Objects behind pointers live in an explicit store, one partial map per C type, so
  that the control block shared by a handle and its regions is shared in the model too.
  A null pointer is the word 0.
\<close>

type_synonym addr = "64 word"

abbreviation NULL :: addr where
  "NULL \<equiv> 0"

text \<open>\<^verbatim>\<open>struct mmap_info { void *data; int ref; }\<close>\<close>

record mmap_info =
  data :: addr
  ref :: "32 word"

text \<open>
  One page frame: its \<open>PAGE_SIZE\<close> bytes and the use count kept by the kernel's page
  accounting (the counter that \<^verbatim>\<open>get_page\<close> increments). A page frame is named by
  its kernel virtual address; \<^verbatim>\<open>virt_to_page\<close> is the kernel's bijection between that
  address and the frame's descriptor, so the descriptor pointer is modelled by the same
  address.
\<close>

record kpage =
  contents :: string
  use_count :: nat

datatype vm_operations_struct = my_vm_ops

text \<open>The fields of \<^verbatim>\<open>struct vm_area_struct\<close> that the driver reads or writes.\<close>

record vm_area_struct =
  vm_start :: addr
  vm_end :: addr
  vm_flags :: "64 word"
  vm_ops :: "vm_operations_struct option"
  vm_private_data :: addr

text \<open>
  \<^verbatim>\<open>struct file\<close>: \<open>f_name\<close> is \<^verbatim>\<open>f_dentry->d_name.name\<close>, the bytes before the
  terminating NUL, so that \<^verbatim>\<open>strlen\<close> is \<open>length\<close>.
\<close>

record kfile =
  f_name :: string
  private_data :: addr

text \<open>\<^verbatim>\<open>struct vm_fault\<close>: the faulting address and the slot for the resolved page.\<close>

record vm_fault =
  virtual_address :: addr
  page :: addr

datatype loglevel = KERN_INFO | KERN_ERR

record kstate =
  infos :: "addr \<rightharpoonup> mmap_info"
  pages :: "addr \<rightharpoonup> kpage"
  vmas :: "addr \<rightharpoonup> vm_area_struct"
  files :: "addr \<rightharpoonup> kfile"
  klog :: "(loglevel \<times> string) list"

text \<open>
  How a call ends. \<open>Returns\<close> carries the C return value and the state. \<open>Oops\<close> is a
  dereference of a null or dangling pointer: the call does not return, the state is the
  one at the faulting access. \<open>Overrun\<close> is a \<^verbatim>\<open>memcpy\<close> that writes past the end of
  the page it was given.
\<close>

datatype 'a outcome = Returns 'a | Oops kstate | Overrun

definition deref :: "(addr \<rightharpoonup> 'a) \<Rightarrow> addr \<Rightarrow> 'a option" where
  "deref h p = (if p = NULL then None else h p)"

subsection \<open>Kernel constants and primitives\<close>

text \<open>Values of \<^verbatim>\<open>linux/mm.h\<close> for the kernels this driver builds on; 4 KiB pages.\<close>

definition PAGE_SIZE :: nat where
  "PAGE_SIZE = 4096"

definition VM_FAULT_SIGBUS :: int where
  "VM_FAULT_SIGBUS = 2"

definition VM_DONTEXPAND :: "64 word" where
  "VM_DONTEXPAND = 0x00040000"

definition VM_DONTDUMP :: "64 word" where
  "VM_DONTDUMP = 0x04000000"

definition pr_info :: "string \<Rightarrow> kstate \<Rightarrow> kstate" where
  "pr_info line s = s\<lparr>klog := klog s @ [(KERN_INFO, line)]\<rparr>"

definition pr_err :: "string \<Rightarrow> kstate \<Rightarrow> kstate" where
  "pr_err line s = s\<lparr>klog := klog s @ [(KERN_ERR, line)]\<rparr>"

text \<open>
  The allocators belong to the kernel. What they hand back is the environment's choice:
  \<open>kmalloc_ret\<close> is the pointer returned by \<^verbatim>\<open>kmalloc\<close> (null on failure),
  \<open>kmalloc_junk\<close> the bytes the block holds when it is handed out (\<^verbatim>\<open>kmalloc\<close> does
  not clear memory), \<open>page_ret\<close> the address returned by \<^verbatim>\<open>get_zeroed_page\<close>
  (0 on failure).
\<close>

record alloc =
  kmalloc_ret :: addr
  kmalloc_junk :: mmap_info
  page_ret :: addr

definition kmalloc :: "addr \<Rightarrow> mmap_info \<Rightarrow> kstate \<Rightarrow> kstate" where
  "kmalloc p junk s = (if p = NULL then s else s\<lparr>infos := (infos s)(p \<mapsto> junk)\<rparr>)"

definition get_zeroed_page :: "addr \<Rightarrow> kstate \<Rightarrow> kstate" where
  "get_zeroed_page p s =
     (if p = NULL then s
      else s\<lparr>pages := (pages s)(p \<mapsto> \<lparr>contents = replicate PAGE_SIZE (CHR 0x00), use_count = 1\<rparr>)\<rparr>)"

text \<open>
  \<^verbatim>\<open>memcpy((char *)p + off, src, n)\<close> into the page at \<open>p\<close>. Copying nothing touches no
  memory; a null or unmapped destination faults; more than the rest of the page
  overruns it.
\<close>

definition memcpy :: "addr \<Rightarrow> nat \<Rightarrow> string \<Rightarrow> nat \<Rightarrow> kstate \<Rightarrow> kstate outcome" where
  "memcpy p off src n s =
     (if n = 0 then Returns s
      else case deref (pages s) p of
        None \<Rightarrow> Oops s
      | Some pg \<Rightarrow>
          if off + n \<le> length (contents pg)
          then Returns (s\<lparr>pages := (pages s)(p \<mapsto>
                 pg\<lparr>contents := take off (contents pg) @ take n src @ drop (off + n) (contents pg)\<rparr>)\<rparr>)
          else Overrun)"

text \<open>\<^verbatim>\<open>get_page(virt_to_page(p))\<close>: one more use of the page frame at \<open>p\<close>.\<close>

definition get_page :: "addr \<Rightarrow> kstate \<Rightarrow> kstate outcome" where
  "get_page p s =
     (case deref (pages s) p of
        None \<Rightarrow> Oops s
      | Some pg \<Rightarrow> Returns (s\<lparr>pages := (pages s)(p \<mapsto> pg\<lparr>use_count := use_count pg + 1\<rparr>)\<rparr>))"

section \<open>The driver\<close>

definition msg :: string where
  "msg = ''My mmap options implement, this is file: ''"

text \<open>\<^verbatim>\<open>#define PRINTFUNC() pr_info("== %s ==\n", __func__);\<close>\<close>

definition PRINTFUNC :: "string \<Rightarrow> kstate \<Rightarrow> kstate" where
  "PRINTFUNC func s = pr_info (''== '' @ func @ '' =='' @ [CHR 0x0A]) s"

definition my_vma_open :: "addr \<Rightarrow> kstate \<Rightarrow> kstate outcome" where
  "my_vma_open vma s =
     (case deref (vmas s) vma of
        None \<Rightarrow> Oops s
      | Some v \<Rightarrow>
          (case deref (infos s) (vm_private_data v) of
             None \<Rightarrow> Oops s
           | Some info \<Rightarrow>
               Returns (PRINTFUNC ''my_vma_open''
                 (s\<lparr>infos := (infos s)(vm_private_data v \<mapsto> info\<lparr>ref := ref info + 1\<rparr>)\<rparr>))))"

definition my_vma_close :: "addr \<Rightarrow> kstate \<Rightarrow> kstate outcome" where
  "my_vma_close vma s =
     (case deref (vmas s) vma of
        None \<Rightarrow> Oops s
      | Some v \<Rightarrow>
          (case deref (infos s) (vm_private_data v) of
             None \<Rightarrow> Oops s
           | Some info \<Rightarrow>
               Returns (PRINTFUNC ''my_vma_close''
                 (s\<lparr>infos := (infos s)(vm_private_data v \<mapsto> info\<lparr>ref := ref info - 1\<rparr>)\<rparr>))))"

text \<open>
  The fault handler. The body of the \<^verbatim>\<open>do { ... } while(0)\<close> runs once and each
  \<^verbatim>\<open>break\<close> leaves it with \<open>err\<close> set; \<^verbatim>\<open>vmf->page\<close> is assigned on the last line only.
\<close>

definition my_vma_nopage :: "addr \<Rightarrow> vm_fault \<Rightarrow> kstate \<Rightarrow> (int \<times> vm_fault \<times> kstate) outcome" where
  "my_vma_nopage vma vmf s =
     (if vma = NULL
      then Returns (VM_FAULT_SIGBUS, vmf,
             pr_err (''== my_vma_nopage: invalid address! =='' @ [CHR 0x0A]) s)
      else case vmas s vma of
        None \<Rightarrow> Oops s
      | Some v \<Rightarrow>
          if virtual_address vmf > vm_end v
          then Returns (VM_FAULT_SIGBUS, vmf,
                 pr_err (''== my_vma_nopage: invalid address! =='' @ [CHR 0x0A]) s)
          else case deref (infos s) (vm_private_data v) of
            None \<Rightarrow> Oops s
          | Some info \<Rightarrow>
              if data info = NULL
              then Returns (VM_FAULT_SIGBUS, vmf,
                     pr_err (''== my_vma_nopage: No data pool pointer =='' @ [CHR 0x0A]) s)
              else case get_page (data info) (PRINTFUNC ''my_vma_nopage'' s) of
                Returns s' \<Rightarrow> Returns (0, vmf\<lparr>page := data info\<rparr>, s')
              | Oops t \<Rightarrow> Oops t
              | Overrun \<Rightarrow> Overrun)"

text \<open>
  \<^verbatim>\<open>my_open\<close>. Neither allocation result is tested. The right-hand side
  \<^verbatim>\<open>get_zeroed_page(GFP_KERNEL)\<close> is called before the store to \<^verbatim>\<open>info->data\<close>; the
  field \<^verbatim>\<open>info->ref\<close> is never assigned.
\<close>

definition my_open :: "alloc \<Rightarrow> addr \<Rightarrow> addr \<Rightarrow> kstate \<Rightarrow> (int \<times> kstate) outcome" where
  "my_open env ip filp s =
     (let s1 = PRINTFUNC ''my_open'' s;
          info = kmalloc_ret env;
          s2 = kmalloc info (kmalloc_junk env) s1;
          pg = page_ret env;
          s3 = get_zeroed_page pg s2
      in case deref (infos s3) info of
        None \<Rightarrow> Oops s3
      | Some blk \<Rightarrow>
          let s4 = s3\<lparr>infos := (infos s3)(info \<mapsto> blk\<lparr>data := pg\<rparr>)\<rparr>
          in case memcpy pg 0 msg (length msg) s4 of
            Oops t \<Rightarrow> Oops t
          | Overrun \<Rightarrow> Overrun
          | Returns s5 \<Rightarrow>
              (case deref (files s5) filp of
                 None \<Rightarrow> Oops s5
               | Some f \<Rightarrow>
                   (case memcpy pg (length msg) (f_name f) (length (f_name f)) s5 of
                      Oops t \<Rightarrow> Oops t
                    | Overrun \<Rightarrow> Overrun
                    | Returns s6 \<Rightarrow>
                        Returns (0, s6\<lparr>files := (files s6)(filp \<mapsto> f\<lparr>private_data := info\<rparr>)\<rparr>))))"

definition my_mmap :: "addr \<Rightarrow> addr \<Rightarrow> kstate \<Rightarrow> (int \<times> kstate) outcome" where
  "my_mmap filp vma s =
     (case deref (vmas s) vma of
        None \<Rightarrow> Oops s
      | Some v \<Rightarrow>
          let v1 = v\<lparr>vm_ops := Some my_vm_ops,
                     vm_flags := vm_flags v OR (VM_DONTEXPAND OR VM_DONTDUMP)\<rparr>;
              s1 = s\<lparr>vmas := (vmas s)(vma \<mapsto> v1)\<rparr>
          in case deref (files s1) filp of
            None \<Rightarrow> Oops s1
          | Some f \<Rightarrow>
              let s2 = s1\<lparr>vmas := (vmas s1)(vma \<mapsto> v1\<lparr>vm_private_data := private_data f\<rparr>)\<rparr>
              in case my_vma_open vma s2 of
                Returns s3 \<Rightarrow> Returns (0, s3)
              | Oops t \<Rightarrow> Oops t
              | Overrun \<Rightarrow> Overrun)"

subsection \<open>Notifications delivered by the kernel\<close>

text \<open>
  The kernel calls \<^verbatim>\<open>vma->vm_ops->open\<close> when a region is duplicated and
  \<^verbatim>\<open>vma->vm_ops->close\<close> when one is torn down; the table \<^verbatim>\<open>my_vm_ops\<close> binds them to
  \<open>my_vma_open\<close> and \<open>my_vma_close\<close>. A region with no table gets no call.
\<close>

datatype vma_event = Ev_open | Ev_close

definition deliver :: "vma_event \<Rightarrow> addr \<Rightarrow> kstate \<Rightarrow> kstate outcome" where
  "deliver ev vma s =
     (case deref (vmas s) vma of
        None \<Rightarrow> Oops s
      | Some v \<Rightarrow>
          (case vm_ops v of
             None \<Rightarrow> Returns s
           | Some my_vm_ops \<Rightarrow>
               (case ev of Ev_open \<Rightarrow> my_vma_open vma s | Ev_close \<Rightarrow> my_vma_close vma s)))"

subsection \<open>Observations used in the statements\<close>

definition in_range :: "vm_area_struct \<Rightarrow> addr \<Rightarrow> bool" where
  "in_range v a \<longleftrightarrow> vm_start v \<le> a \<and> a < vm_end v"

text \<open>
  The fault handler returned \<^verbatim>\<open>VM_FAULT_SIGBUS\<close>, left the fault descriptor as it was
  and touched no page.
\<close>

definition rejected :: "vm_fault \<Rightarrow> kstate \<Rightarrow> (int \<times> vm_fault \<times> kstate) outcome \<Rightarrow> bool" where
  "rejected vmf s r =
     (case r of
        Returns (err, vmf', s') \<Rightarrow> err = VM_FAULT_SIGBUS \<and> vmf' = vmf \<and> pages s' = pages s
      | Oops t \<Rightarrow> False
      | Overrun \<Rightarrow> False)"

fun returned :: "'a outcome \<Rightarrow> 'a option" where
  "returned (Returns x) = Some x"
| "returned (Oops t) = None"
| "returned Overrun = None"

fun oops_state :: "'a outcome \<Rightarrow> kstate option" where
  "oops_state (Oops t) = Some t"
| "oops_state (Returns x) = None"
| "oops_state Overrun = None"

text \<open>The reference count of a region: \<^verbatim>\<open>((struct mmap_info *)vma->vm_private_data)->ref\<close>.\<close>

definition refCount :: "addr \<Rightarrow> kstate \<Rightarrow> int option" where
  "refCount vma s =
     (case deref (vmas s) vma of
        None \<Rightarrow> None
      | Some v \<Rightarrow> map_option (\<lambda>info. sint (ref info)) (deref (infos s) (vm_private_data v)))"

text \<open>The bytes of the page behind a handle: \<^verbatim>\<open>((struct mmap_info *)filp->private_data)->data\<close>.\<close>

definition payload :: "addr \<Rightarrow> kstate \<Rightarrow> string option" where
  "payload filp s =
     (case deref (files s) filp of
        None \<Rightarrow> None
      | Some f \<Rightarrow>
          (case deref (infos s) (private_data f) of
             None \<Rightarrow> None
           | Some info \<Rightarrow> map_option contents (deref (pages s) (data info))))"

text \<open>A handle is opened and then mapped, as \<^verbatim>\<open>open\<close> followed by \<^verbatim>\<open>mmap\<close> does.\<close>

definition open_then_mmap :: "alloc \<Rightarrow> addr \<Rightarrow> addr \<Rightarrow> addr \<Rightarrow> kstate \<Rightarrow> (int \<times> kstate) outcome" where
  "open_then_mmap env ip filp vma s =
     (case my_open env ip filp s of
        Returns (r, s1) \<Rightarrow> if r = 0 then my_mmap filp vma s1 else Returns (r, s1)
      | Oops t \<Rightarrow> Oops t
      | Overrun \<Rightarrow> Overrun)"

text \<open>What a fault handler call hands back: the error code and \<^verbatim>\<open>vmf->page\<close>.\<close>

definition fault_result :: "(int \<times> vm_fault \<times> kstate) outcome \<Rightarrow> (int \<times> addr) option" where
  "fault_result r =
     (case r of Returns (err, vmf', s') \<Rightarrow> Some (err, page vmf') | Oops t \<Rightarrow> None | Overrun \<Rightarrow> None)"

text \<open>The return value of a call and the reference count of region \<open>vma\<close> after it.\<close>

definition result_ref :: "addr \<Rightarrow> (int \<times> kstate) outcome \<Rightarrow> (int \<times> int option) option" where
  "result_ref vma r =
     (case r of Returns (err, s') \<Rightarrow> Some (err, refCount vma s') | Oops t \<Rightarrow> None | Overrun \<Rightarrow> None)"

text \<open>
  The reference count of a region before the first notification and after each one, in
  order.
\<close>

fun ref_trace :: "vma_event list \<Rightarrow> addr \<Rightarrow> kstate \<Rightarrow> int option list" where
  "ref_trace [] vma s = [refCount vma s]"
| "ref_trace (ev # evs) vma s =
     refCount vma s #
       (case deliver ev vma s of
          Returns s' \<Rightarrow> ref_trace evs vma s'
        | Oops t \<Rightarrow> []
        | Overrun \<Rightarrow> [])"

definition trace_after :: "vma_event list \<Rightarrow> addr \<Rightarrow> (int \<times> kstate) outcome \<Rightarrow> int option list" where
  "trace_after evs vma r =
     (case r of Returns (err, s') \<Rightarrow> ref_trace evs vma s' | Oops t \<Rightarrow> [] | Overrun \<Rightarrow> [])"

text \<open>
  A sequence of notifications in which no teardown comes without a live interest:
  \<open>n\<close> is the number of interests before the sequence (1 right after the mapping is
  set up), so at every point the teardowns so far are at most \<open>n\<close> plus the duplications
  so far.
\<close>

fun admissible :: "nat \<Rightarrow> vma_event list \<Rightarrow> bool" where
  "admissible n [] = True"
| "admissible n (Ev_open # evs) = admissible (Suc n) evs"
| "admissible n (Ev_close # evs) = (0 < n \<and> admissible (n - 1) evs)"

subsection \<open>A concrete system\<close>

definition ex_page :: kpage where
  "ex_page = \<lparr>contents = msg @ ''dev0'' @ replicate (PAGE_SIZE - 45) (CHR 0x00), use_count = 1\<rparr>"

definition ex_vma :: "addr \<Rightarrow> vm_area_struct" where
  "ex_vma priv = \<lparr>vm_start = 0x7F0000000000, vm_end = 0x7F0000001000, vm_flags = 0,
      vm_ops = Some my_vm_ops, vm_private_data = priv\<rparr>"

text \<open>A handle at 0x2000 mapped by the region at 0x3000; \<open>d\<close> and \<open>r\<close> are the control block's fields.\<close>

definition ex_mapped :: "addr \<Rightarrow> 32 word \<Rightarrow> kstate" where
  "ex_mapped d r = \<lparr>infos = [0x4000 \<mapsto> \<lparr>data = d, ref = r\<rparr>],
      pages = [0x10000 \<mapsto> ex_page],
      vmas = [0x3000 \<mapsto> ex_vma 0x4000],
      files = [0x2000 \<mapsto> \<lparr>f_name = ''dev0'', private_data = 0x4000\<rparr>],
      klog = []\<rparr>"

text \<open>Before any open: two files not yet opened and a region not yet set up.\<close>

definition ex_boot :: "string \<Rightarrow> kstate" where
  "ex_boot name = \<lparr>infos = Map.empty, pages = Map.empty,
      vmas = [0x3000 \<mapsto> \<lparr>vm_start = 0x7F0000000000, vm_end = 0x7F0000001000, vm_flags = 0,
                vm_ops = None, vm_private_data = NULL\<rparr>],
      files = [0x2000 \<mapsto> \<lparr>f_name = name, private_data = NULL\<rparr>,
               0x2800 \<mapsto> \<lparr>f_name = ''dev1'', private_data = NULL\<rparr>],
      klog = []\<rparr>"

text \<open>An allocator answer whose control block holds \<open>r\<close> in its \<open>ref\<close> bytes when handed out.\<close>

definition ex_alloc :: "addr \<Rightarrow> 32 word \<Rightarrow> addr \<Rightarrow> alloc" where
  "ex_alloc p r pg = \<lparr>kmalloc_ret = p, kmalloc_junk = \<lparr>data = 0xDEAD, ref = r\<rparr>, page_ret = pg\<rparr>"

section \<open>Fault resolution\<close>

lemmas nopage_defs =
  my_vma_nopage_def get_page_def deref_def PRINTFUNC_def pr_info_def pr_err_def

text \<open>
  Claim C2. For a region whose control block has an allocated page, a fault at any
  address inside \<open>[vm_start, vm_end)\<close> returns 0, stores exactly the resource's page in
  \<^verbatim>\<open>vmf->page\<close>, and raises that page's use count by one (a single \<^verbatim>\<open>get_page\<close>);
  nothing else changes but the trace line.
\<close>

theorem nopage_resolves:
  assumes "deref (vmas s) vma = Some v"
    and "deref (infos s) (vm_private_data v) = Some info"
    and "deref (pages s) (data info) = Some pg"
    and "in_range v (virtual_address vmf)"
  shows "my_vma_nopage vma vmf s =
           Returns (0, vmf\<lparr>page := data info\<rparr>,
             (PRINTFUNC ''my_vma_nopage'' s)
               \<lparr>pages := (pages s)(data info \<mapsto> pg\<lparr>use_count := use_count pg + 1\<rparr>)\<rparr>)"
  using assms
  by (auto simp: nopage_defs in_range_def split: if_splits)

theorem nopage_resolves_witness:
  "deref (vmas (ex_mapped 0x10000 1)) 0x3000 = Some (ex_vma 0x4000)
   \<and> deref (infos (ex_mapped 0x10000 1)) (vm_private_data (ex_vma 0x4000))
       = Some \<lparr>data = 0x10000, ref = 1\<rparr>
   \<and> deref (pages (ex_mapped 0x10000 1)) 0x10000 = Some ex_page
   \<and> in_range (ex_vma 0x4000) 0x7F0000000800
   \<and> my_vma_nopage 0x3000 \<lparr>virtual_address = 0x7F0000000800, page = 0\<rparr> (ex_mapped 0x10000 1) =
       Returns (0, \<lparr>virtual_address = 0x7F0000000800, page = 0x10000\<rparr>,
         (PRINTFUNC ''my_vma_nopage'' (ex_mapped 0x10000 1))
           \<lparr>pages := (pages (ex_mapped 0x10000 1))
                (0x10000 \<mapsto> ex_page\<lparr>use_count := use_count ex_page + 1\<rparr>)\<rparr>)"
proof -
  have h1: "deref (vmas (ex_mapped 0x10000 1)) 0x3000 = Some (ex_vma 0x4000)"
    by (simp add: deref_def ex_mapped_def)
  have h2: "deref (infos (ex_mapped 0x10000 1)) (vm_private_data (ex_vma 0x4000))
              = Some \<lparr>data = 0x10000, ref = 1\<rparr>"
    by (simp add: deref_def ex_mapped_def ex_vma_def)
  have h3: "deref (pages (ex_mapped 0x10000 1)) (data \<lparr>data = 0x10000, ref = 1\<rparr>) = Some ex_page"
    by (simp add: deref_def ex_mapped_def)
  have h4: "in_range (ex_vma 0x4000)
              (virtual_address \<lparr>virtual_address = 0x7F0000000800, page = 0\<rparr>)"
    by (simp add: in_range_def ex_vma_def)
  from nopage_resolves [OF h1 h2 h3 h4] h1 h2 h3 h4 show ?thesis
    by simp
qed

text \<open>
  Claim C1 fails on the code. The handler tests the fault address against the region
  with \<^verbatim>\<open>address > vma->vm_end\<close> only: the comparison is strict and there is no test
  against \<^verbatim>\<open>vm_start\<close>. A fault at \<open>vm_end\<close> itself, one past the last byte of the
  region, returns 0 and resolves the resource's page, and so does a fault below
  \<open>vm_start\<close>, where the claim says both are answered with \<^verbatim>\<open>VM_FAULT_SIGBUS\<close>.
\<close>

theorem nopage_outside_range_resolves:
  "\<not> in_range (ex_vma 0x4000) 0x7F0000001000
   \<and> fault_result (my_vma_nopage 0x3000 \<lparr>virtual_address = 0x7F0000001000, page = 0\<rparr>
        (ex_mapped 0x10000 1)) = Some (0, 0x10000)
   \<and> \<not> in_range (ex_vma 0x4000) 0x1000
   \<and> fault_result (my_vma_nopage 0x3000 \<lparr>virtual_address = 0x1000, page = 0\<rparr>
        (ex_mapped 0x10000 1)) = Some (0, 0x10000)"
  by (simp add: nopage_defs ex_mapped_def ex_vma_def in_range_def fault_result_def)

text \<open>
  What the test in the handler does reject: an absent region, and an address strictly
  above \<open>vm_end\<close>. In both cases the fault descriptor and every page are left as they
  were.
\<close>

lemma nopage_rejects_absent_region:
  "rejected vmf s (my_vma_nopage NULL vmf s)"
  by (simp add: nopage_defs rejected_def)

lemma nopage_rejects_above_end:
  assumes "deref (vmas s) vma = Some v" and "vm_end v < virtual_address vmf"
  shows "rejected vmf s (my_vma_nopage vma vmf s)"
  using assms
  by (auto simp: nopage_defs rejected_def split: if_splits)

text \<open>
  Claim C8. Whenever the fault handler returns \<^verbatim>\<open>VM_FAULT_SIGBUS\<close>, for whichever of
  its three reasons, \<^verbatim>\<open>vmf->page\<close> is not assigned and no page's use count moves; the
  control blocks, regions and handles are untouched as well. Only the error line is
  logged.
\<close>

theorem nopage_bus_error_no_effect:
  assumes "my_vma_nopage vma vmf s = Returns (VM_FAULT_SIGBUS, vmf', s')"
  shows "vmf' = vmf \<and> pages s' = pages s \<and> infos s' = infos s \<and> vmas s' = vmas s
       \<and> files s' = files s"
  using assms
  by (auto simp: nopage_defs VM_FAULT_SIGBUS_def split: if_splits option.splits)

theorem nopage_bus_error_no_effect_witness:
  "my_vma_nopage 0x3000 \<lparr>virtual_address = 0x7F0000001001, page = 0\<rparr> (ex_mapped 0x10000 1) =
     Returns (VM_FAULT_SIGBUS, \<lparr>virtual_address = 0x7F0000001001, page = 0\<rparr>,
       pr_err (''== my_vma_nopage: invalid address! =='' @ [CHR 0x0A]) (ex_mapped 0x10000 1))
   \<and> pages (pr_err (''== my_vma_nopage: invalid address! =='' @ [CHR 0x0A]) (ex_mapped 0x10000 1))
       = pages (ex_mapped 0x10000 1)
   \<and> infos (pr_err (''== my_vma_nopage: invalid address! =='' @ [CHR 0x0A]) (ex_mapped 0x10000 1))
       = infos (ex_mapped 0x10000 1)
   \<and> vmas (pr_err (''== my_vma_nopage: invalid address! =='' @ [CHR 0x0A]) (ex_mapped 0x10000 1))
       = vmas (ex_mapped 0x10000 1)
   \<and> files (pr_err (''== my_vma_nopage: invalid address! =='' @ [CHR 0x0A]) (ex_mapped 0x10000 1))
       = files (ex_mapped 0x10000 1)"
proof -
  have h: "my_vma_nopage 0x3000 \<lparr>virtual_address = 0x7F0000001001, page = 0\<rparr> (ex_mapped 0x10000 1) =
     Returns (VM_FAULT_SIGBUS, \<lparr>virtual_address = 0x7F0000001001, page = 0\<rparr>,
       pr_err (''== my_vma_nopage: invalid address! =='' @ [CHR 0x0A]) (ex_mapped 0x10000 1))"
    by (simp add: my_vma_nopage_def ex_mapped_def ex_vma_def)
  from nopage_bus_error_no_effect [OF h] h show ?thesis
    by simp
qed

section \<open>Setting up a mapping and counting interests\<close>

text \<open>
  Claim C9. For an open handle (one whose \<^verbatim>\<open>private_data\<close> is a control block) and a
  region, \<^verbatim>\<open>my_mmap\<close> always returns 0. It installs \<^verbatim>\<open>my_vm_ops\<close>, sets the flags
  \<^verbatim>\<open>VM_DONTEXPAND\<close> and \<^verbatim>\<open>VM_DONTDUMP\<close>, binds the handle's control block to the
  region and counts one interest; it does nothing else.
\<close>

theorem mmap_returns_zero:
  assumes "deref (vmas s) vma = Some v"
    and "deref (files s) filp = Some f"
    and "deref (infos s) (private_data f) = Some info"
  shows "my_mmap filp vma s =
           Returns (0, PRINTFUNC ''my_vma_open''
             (s\<lparr>vmas := (vmas s)(vma \<mapsto>
                   v\<lparr>vm_ops := Some my_vm_ops,
                     vm_flags := vm_flags v OR (VM_DONTEXPAND OR VM_DONTDUMP),
                     vm_private_data := private_data f\<rparr>),
                 infos := (infos s)(private_data f \<mapsto> info\<lparr>ref := ref info + 1\<rparr>)\<rparr>))"
  using assms
  by (auto simp: my_mmap_def my_vma_open_def deref_def Let_def split: if_splits)

theorem mmap_returns_zero_witness:
  "deref (vmas (ex_mapped 0x10000 1)) 0x3000 = Some (ex_vma 0x4000)
   \<and> deref (files (ex_mapped 0x10000 1)) 0x2000 = Some \<lparr>f_name = ''dev0'', private_data = 0x4000\<rparr>
   \<and> deref (infos (ex_mapped 0x10000 1)) 0x4000 = Some \<lparr>data = 0x10000, ref = 1\<rparr>
   \<and> result_ref 0x3000 (my_mmap 0x2000 0x3000 (ex_mapped 0x10000 1)) = Some (0, Some 2)"
proof -
  have h1: "deref (vmas (ex_mapped 0x10000 1)) 0x3000 = Some (ex_vma 0x4000)"
    by (simp add: deref_def ex_mapped_def)
  have h2: "deref (files (ex_mapped 0x10000 1)) 0x2000
              = Some \<lparr>f_name = ''dev0'', private_data = 0x4000\<rparr>"
    by (simp add: deref_def ex_mapped_def)
  have h3: "deref (infos (ex_mapped 0x10000 1))
              (private_data \<lparr>f_name = ''dev0'', private_data = 0x4000\<rparr>)
              = Some \<lparr>data = 0x10000, ref = 1\<rparr>"
    by (simp add: deref_def ex_mapped_def)
  from mmap_returns_zero [OF h1 h2 h3] h1 h2 h3 show ?thesis
    by (simp add: result_ref_def refCount_def deref_def PRINTFUNC_def pr_info_def)
qed

text \<open>
  Claim C10. \<^verbatim>\<open>my_vma_open\<close> and \<^verbatim>\<open>my_vma_close\<close> change the state in exactly two
  places: the \<open>ref\<close> field of the one control block bound to the region, and the trace
  log. The regions (address range and bound control block), the handles, every page,
  the page pointer of that control block and every other control block are unchanged.
\<close>

theorem vma_open_close_frame:
  "(my_vma_open vma s = Returns s' \<longrightarrow>
      vmas s' = vmas s \<and> pages s' = pages s \<and> files s' = files s
      \<and> (\<exists>v info. deref (vmas s) vma = Some v
            \<and> deref (infos s) (vm_private_data v) = Some info
            \<and> s' = s\<lparr>infos := (infos s)(vm_private_data v \<mapsto> info\<lparr>ref := ref info + 1\<rparr>),
                      klog := klog s @ [(KERN_INFO, ''== my_vma_open =='' @ [CHR 0x0A])]\<rparr>))
   \<and> (my_vma_close vma s = Returns s'' \<longrightarrow>
      vmas s'' = vmas s \<and> pages s'' = pages s \<and> files s'' = files s
      \<and> (\<exists>v info. deref (vmas s) vma = Some v
            \<and> deref (infos s) (vm_private_data v) = Some info
            \<and> s'' = s\<lparr>infos := (infos s)(vm_private_data v \<mapsto> info\<lparr>ref := ref info - 1\<rparr>),
                       klog := klog s @ [(KERN_INFO, ''== my_vma_close =='' @ [CHR 0x0A])]\<rparr>))"
  by (auto simp: my_vma_open_def my_vma_close_def PRINTFUNC_def pr_info_def
      split: option.splits)

theorem vma_open_close_frame_witness:
  "my_vma_open 0x3000 (ex_mapped 0x10000 1) = Returns (PRINTFUNC ''my_vma_open'' (ex_mapped 0x10000 2))
   \<and> my_vma_close 0x3000 (ex_mapped 0x10000 1) = Returns (PRINTFUNC ''my_vma_close'' (ex_mapped 0x10000 0))
   \<and> vmas (PRINTFUNC ''my_vma_open'' (ex_mapped 0x10000 2)) = vmas (ex_mapped 0x10000 1)
   \<and> pages (PRINTFUNC ''my_vma_open'' (ex_mapped 0x10000 2)) = pages (ex_mapped 0x10000 1)
   \<and> files (PRINTFUNC ''my_vma_open'' (ex_mapped 0x10000 2)) = files (ex_mapped 0x10000 1)
   \<and> (\<exists>v info. deref (vmas (ex_mapped 0x10000 1)) 0x3000 = Some v
         \<and> deref (infos (ex_mapped 0x10000 1)) (vm_private_data v) = Some info
         \<and> PRINTFUNC ''my_vma_open'' (ex_mapped 0x10000 2) =
             (ex_mapped 0x10000 1)
               \<lparr>infos := (infos (ex_mapped 0x10000 1))(vm_private_data v \<mapsto> info\<lparr>ref := ref info + 1\<rparr>),
                klog := klog (ex_mapped 0x10000 1) @ [(KERN_INFO, ''== my_vma_open =='' @ [CHR 0x0A])]\<rparr>)
   \<and> vmas (PRINTFUNC ''my_vma_close'' (ex_mapped 0x10000 0)) = vmas (ex_mapped 0x10000 1)
   \<and> pages (PRINTFUNC ''my_vma_close'' (ex_mapped 0x10000 0)) = pages (ex_mapped 0x10000 1)
   \<and> files (PRINTFUNC ''my_vma_close'' (ex_mapped 0x10000 0)) = files (ex_mapped 0x10000 1)
   \<and> (\<exists>v info. deref (vmas (ex_mapped 0x10000 1)) 0x3000 = Some v
         \<and> deref (infos (ex_mapped 0x10000 1)) (vm_private_data v) = Some info
         \<and> PRINTFUNC ''my_vma_close'' (ex_mapped 0x10000 0) =
             (ex_mapped 0x10000 1)
               \<lparr>infos := (infos (ex_mapped 0x10000 1))(vm_private_data v \<mapsto> info\<lparr>ref := ref info - 1\<rparr>),
                klog := klog (ex_mapped 0x10000 1) @ [(KERN_INFO, ''== my_vma_close =='' @ [CHR 0x0A])]\<rparr>)"
proof -
  have h1: "my_vma_open 0x3000 (ex_mapped 0x10000 1)
              = Returns (PRINTFUNC ''my_vma_open'' (ex_mapped 0x10000 2))"
    by (simp add: my_vma_open_def deref_def ex_mapped_def ex_vma_def)
  have h2: "my_vma_close 0x3000 (ex_mapped 0x10000 1)
              = Returns (PRINTFUNC ''my_vma_close'' (ex_mapped 0x10000 0))"
    by (simp add: my_vma_close_def deref_def ex_mapped_def ex_vma_def)
  from vma_open_close_frame [of "0x3000" "ex_mapped 0x10000 1"
      "PRINTFUNC ''my_vma_open'' (ex_mapped 0x10000 2)"
      "PRINTFUNC ''my_vma_close'' (ex_mapped 0x10000 0)"] h1 h2
  show ?thesis by blast
qed

text \<open>
  Claim C5, as stated, fails: \<^verbatim>\<open>my_vma_close\<close> has no test of the count. Closing a
  region whose count is 0 returns normally, leaves the count at -1 and logs the
  informational trace line only.
\<close>

theorem vma_close_at_zero_counterexample:
  "refCount 0x3000 (ex_mapped 0x10000 0) = Some 0
   \<and> my_vma_close 0x3000 (ex_mapped 0x10000 0)
       = Returns ((ex_mapped 0x10000 (- 1))\<lparr>klog := [(KERN_INFO, ''== my_vma_close =='' @ [CHR 0x0A])]\<rparr>)
   \<and> refCount 0x3000
       ((ex_mapped 0x10000 (- 1))\<lparr>klog := [(KERN_INFO, ''== my_vma_close =='' @ [CHR 0x0A])]\<rparr>)
       = Some (- 1)"
  by (simp add: my_vma_close_def deref_def ex_mapped_def ex_vma_def refCount_def PRINTFUNC_def
      pr_info_def)

text \<open>
  Claim C5, amended. A call of \<^verbatim>\<open>my_vma_close\<close> on a region whose count is 0 is not
  detected: the decrement is unconditional, the call returns normally with the count at
  -1 (it is not clamped to 0), and the only line logged is the informational trace.
\<close>

theorem vma_close_at_zero:
  assumes "deref (vmas s) vma = Some v"
    and "deref (infos s) (vm_private_data v) = Some info"
    and "ref info = 0"
  shows "my_vma_close vma s =
           Returns (s\<lparr>infos := (infos s)(vm_private_data v \<mapsto> info\<lparr>ref := - 1\<rparr>),
                      klog := klog s @ [(KERN_INFO, ''== my_vma_close =='' @ [CHR 0x0A])]\<rparr>)
       \<and> refCount vma
           (s\<lparr>infos := (infos s)(vm_private_data v \<mapsto> info\<lparr>ref := - 1\<rparr>),
              klog := klog s @ [(KERN_INFO, ''== my_vma_close =='' @ [CHR 0x0A])]\<rparr>) = Some (- 1)"
  using assms
  by (auto simp: my_vma_close_def deref_def PRINTFUNC_def pr_info_def refCount_def
      split: if_splits)

theorem vma_close_at_zero_witness:
  "deref (vmas (ex_mapped 0x10000 0)) 0x3000 = Some (ex_vma 0x4000)
   \<and> deref (infos (ex_mapped 0x10000 0)) (vm_private_data (ex_vma 0x4000))
       = Some \<lparr>data = 0x10000, ref = 0\<rparr>
   \<and> ref \<lparr>data = 0x10000, ref = 0\<rparr> = 0
   \<and> my_vma_close 0x3000 (ex_mapped 0x10000 0) =
       Returns ((ex_mapped 0x10000 0)
         \<lparr>infos := (infos (ex_mapped 0x10000 0))(0x4000 \<mapsto> \<lparr>data = 0x10000, ref = - 1\<rparr>),
          klog := klog (ex_mapped 0x10000 0) @ [(KERN_INFO, ''== my_vma_close =='' @ [CHR 0x0A])]\<rparr>)
   \<and> refCount 0x3000 ((ex_mapped 0x10000 0)
         \<lparr>infos := (infos (ex_mapped 0x10000 0))(0x4000 \<mapsto> \<lparr>data = 0x10000, ref = - 1\<rparr>),
          klog := klog (ex_mapped 0x10000 0) @ [(KERN_INFO, ''== my_vma_close =='' @ [CHR 0x0A])]\<rparr>)
       = Some (- 1)"
proof -
  have h1: "deref (vmas (ex_mapped 0x10000 0)) 0x3000 = Some (ex_vma 0x4000)"
    by (simp add: deref_def ex_mapped_def)
  have h2: "deref (infos (ex_mapped 0x10000 0)) (vm_private_data (ex_vma 0x4000))
              = Some \<lparr>data = 0x10000, ref = 0\<rparr>"
    by (simp add: deref_def ex_mapped_def ex_vma_def)
  have h3: "ref \<lparr>data = 0x10000, ref = 0\<rparr> = 0"
    by simp
  have p: "vm_private_data (ex_vma 0x4000) = 0x4000"
    by (simp add: ex_vma_def)
  from vma_close_at_zero [OF h1 h2 h3] h1 h2 p show ?thesis
    by simp
qed

section \<open>Opening a handle\<close>

lemma length_msg: "length msg = 41"
  by (simp add: msg_def)

lemmas open_defs =
  my_open_def Let_def deref_def kmalloc_def get_zeroed_page_def memcpy_def PRINTFUNC_def
  pr_info_def

text \<open>
  Claim C6 fails on the code. \<^verbatim>\<open>my_open\<close> tests neither the result of \<^verbatim>\<open>kmalloc\<close>
  nor that of \<^verbatim>\<open>get_zeroed_page\<close>. When \<^verbatim>\<open>kmalloc\<close> returns null the store to
  \<^verbatim>\<open>info->data\<close> goes through the null pointer; when the page is null the first
  \<^verbatim>\<open>memcpy\<close> writes to address 0. In both cases the call ends in a fault instead of
  returning an error to its caller, as the claim requires.
\<close>

theorem open_alloc_null_oops:
  "my_open (ex_alloc NULL 0 0x10000) 0 0x2000 (ex_boot ''dev0'')
     = Oops (get_zeroed_page 0x10000 (PRINTFUNC ''my_open'' (ex_boot ''dev0'')))
   \<and> returned (my_open (ex_alloc NULL 0 0x10000) 0 0x2000 (ex_boot ''dev0'')) = None
   \<and> returned (my_open (ex_alloc 0x4000 0 NULL) 0 0x2000 (ex_boot ''dev0'')) = None
   \<and> map_option files (oops_state (my_open (ex_alloc 0x4000 0 NULL) 0 0x2000 (ex_boot ''dev0'')))
       = Some (files (ex_boot ''dev0''))"
  by (simp add: open_defs length_msg ex_alloc_def ex_boot_def)

text \<open>
  The same holds for every handle and state: with either allocation failed, the call
  does not return, and at the fault the handles are as they were before the call.
\<close>

lemma open_alloc_failure:
  assumes "kmalloc_ret env = NULL \<or> page_ret env = NULL"
  shows "returned (my_open env ip filp s) = None
       \<and> map_option files (oops_state (my_open env ip filp s)) = Some (files s)"
  using assms
  by (auto simp: open_defs length_msg split: option.splits)

text \<open>
  What a successful open leaves behind, when both allocations succeed and the prefix and
  the name fit in one page.
\<close>

lemma my_open_returns:
  assumes "deref (files s) filp = Some k"
    and "kmalloc_ret env \<noteq> NULL" and "page_ret env \<noteq> NULL"
    and "length msg + length (f_name k) \<le> PAGE_SIZE"
  shows "my_open env ip filp s =
           Returns (0, s\<lparr>infos := (infos s)(kmalloc_ret env \<mapsto> (kmalloc_junk env)\<lparr>data := page_ret env\<rparr>),
                         pages := (pages s)(page_ret env \<mapsto>
                           \<lparr>contents = msg @ f_name k
                                @ replicate (PAGE_SIZE - (length msg + length (f_name k))) (CHR 0x00),
                             use_count = 1\<rparr>),
                         files := (files s)(filp \<mapsto> k\<lparr>private_data := kmalloc_ret env\<rparr>),
                         klog := klog s @ [(KERN_INFO, ''== my_open =='' @ [CHR 0x0A])]\<rparr>)"
proof -
  have f: "filp \<noteq> NULL" "files s filp = Some k"
    using assms(1) by (auto simp: deref_def split: if_splits)
  show ?thesis
  proof (cases "f_name k = []")
    case True
    with assms f show ?thesis
      by (simp add: open_defs length_msg PAGE_SIZE_def)
  next
    case False
    with assms f show ?thesis
      by (simp add: open_defs length_msg PAGE_SIZE_def)
  qed
qed

text \<open>
  Claim C7, as stated, fails: \<^verbatim>\<open>my_open\<close> copies \<^verbatim>\<open>strlen(name)\<close> bytes behind the
  prefix and truncates nothing. With a name of 4056 bytes the second \<^verbatim>\<open>memcpy\<close> runs
  one byte past the end of the page.
\<close>

theorem open_overrun_counterexample:
  "my_open (ex_alloc 0x4000 0 0x10000) 0 0x2000 (ex_boot (replicate 4056 (CHR ''a''))) = Overrun"
  by (simp add: open_defs length_msg PAGE_SIZE_def ex_alloc_def ex_boot_def)

text \<open>
  Claim C7, amended. For every handle opened with a name \<open>n\<close> such that the prefix and
  \<open>n\<close> together are at most one page long (the code does not truncate; a directory
  entry name, at most 255 bytes, always fits), the page of the handle's resource holds
  exactly the prefix, then \<open>n\<close>, then zero bytes up to the page size. Two handles
  opened one after the other each get the control block and the page that their own
  open allocated: as the allocator hands the second open a block and a page other than
  those of the first, the two resources are distinct, each page holds its own handle's
  name, and the second open leaves the first page as it was.
\<close>

theorem open_payload:
  assumes "deref (files s) f1 = Some k1" and "deref (files s) f2 = Some k2" and "f1 \<noteq> f2"
    and "kmalloc_ret e1 \<noteq> NULL" and "page_ret e1 \<noteq> NULL"
    and "kmalloc_ret e2 \<noteq> NULL" and "page_ret e2 \<noteq> NULL"
    and "kmalloc_ret e2 \<noteq> kmalloc_ret e1" and "page_ret e2 \<noteq> page_ret e1"
    and "length msg + length (f_name k1) \<le> PAGE_SIZE"
    and "length msg + length (f_name k2) \<le> PAGE_SIZE"
  shows "\<exists>s1 s2. my_open e1 ip f1 s = Returns (0, s1) \<and> my_open e2 ip f2 s1 = Returns (0, s2)
       \<and> payload f1 s1 = Some (msg @ f_name k1
            @ replicate (PAGE_SIZE - (length msg + length (f_name k1))) (CHR 0x00))
       \<and> payload f1 s2 = Some (msg @ f_name k1
            @ replicate (PAGE_SIZE - (length msg + length (f_name k1))) (CHR 0x00))
       \<and> payload f2 s2 = Some (msg @ f_name k2
            @ replicate (PAGE_SIZE - (length msg + length (f_name k2))) (CHR 0x00))
       \<and> map_option private_data (files s2 f1) = Some (kmalloc_ret e1)
       \<and> map_option private_data (files s2 f2) = Some (kmalloc_ret e2)
       \<and> map_option data (infos s2 (kmalloc_ret e1)) = Some (page_ret e1)
       \<and> map_option data (infos s2 (kmalloc_ret e2)) = Some (page_ret e2)"
proof -
  let ?s1 = "s\<lparr>infos := (infos s)(kmalloc_ret e1 \<mapsto> (kmalloc_junk e1)\<lparr>data := page_ret e1\<rparr>),
                pages := (pages s)(page_ret e1 \<mapsto>
                  \<lparr>contents = msg @ f_name k1
                       @ replicate (PAGE_SIZE - (length msg + length (f_name k1))) (CHR 0x00),
                    use_count = 1\<rparr>),
                files := (files s)(f1 \<mapsto> k1\<lparr>private_data := kmalloc_ret e1\<rparr>),
                klog := klog s @ [(KERN_INFO, ''== my_open =='' @ [CHR 0x0A])]\<rparr>"
  let ?s2 = "?s1\<lparr>infos := (infos ?s1)(kmalloc_ret e2 \<mapsto> (kmalloc_junk e2)\<lparr>data := page_ret e2\<rparr>),
                pages := (pages ?s1)(page_ret e2 \<mapsto>
                  \<lparr>contents = msg @ f_name k2
                       @ replicate (PAGE_SIZE - (length msg + length (f_name k2))) (CHR 0x00),
                    use_count = 1\<rparr>),
                files := (files ?s1)(f2 \<mapsto> k2\<lparr>private_data := kmalloc_ret e2\<rparr>),
                klog := klog ?s1 @ [(KERN_INFO, ''== my_open =='' @ [CHR 0x0A])]\<rparr>"
  have o1: "my_open e1 ip f1 s = Returns (0, ?s1)"
    using assms by (intro my_open_returns) auto
  have k2: "deref (files ?s1) f2 = Some k2"
    using assms by (auto simp: deref_def split: if_splits)
  have o2: "my_open e2 ip f2 ?s1 = Returns (0, ?s2)"
    using k2 assms by (intro my_open_returns) auto
  have nz: "f1 \<noteq> NULL" "f2 \<noteq> NULL"
    using assms by (auto simp: deref_def split: if_splits)
  have p: "payload f1 ?s1 = Some (msg @ f_name k1
            @ replicate (PAGE_SIZE - (length msg + length (f_name k1))) (CHR 0x00))"
     "payload f1 ?s2 = Some (msg @ f_name k1
            @ replicate (PAGE_SIZE - (length msg + length (f_name k1))) (CHR 0x00))"
     "payload f2 ?s2 = Some (msg @ f_name k2
            @ replicate (PAGE_SIZE - (length msg + length (f_name k2))) (CHR 0x00))"
    using assms nz by (simp_all add: payload_def deref_def)
  have q: "map_option private_data (files ?s2 f1) = Some (kmalloc_ret e1)"
      "map_option private_data (files ?s2 f2) = Some (kmalloc_ret e2)"
      "map_option data (infos ?s2 (kmalloc_ret e1)) = Some (page_ret e1)"
      "map_option data (infos ?s2 (kmalloc_ret e2)) = Some (page_ret e2)"
    using assms by simp_all
  from o1 o2 p q show ?thesis by blast
qed

theorem open_payload_witness:
  "deref (files (ex_boot ''dev0'')) 0x2000 = Some \<lparr>f_name = ''dev0'', private_data = NULL\<rparr>
   \<and> deref (files (ex_boot ''dev0'')) 0x2800 = Some \<lparr>f_name = ''dev1'', private_data = NULL\<rparr>
   \<and> length msg + length ''dev0'' \<le> PAGE_SIZE
   \<and> length msg + length ''dev1'' \<le> PAGE_SIZE
   \<and> (\<exists>s1 s2. my_open (ex_alloc 0x4000 7 0x10000) 0 0x2000 (ex_boot ''dev0'') = Returns (0, s1)
        \<and> my_open (ex_alloc 0x5000 9 0x11000) 0 0x2800 s1 = Returns (0, s2)
        \<and> payload 0x2000 s2 = Some (msg @ ''dev0'' @ replicate 4051 (CHR 0x00))
        \<and> payload 0x2800 s2 = Some (msg @ ''dev1'' @ replicate 4051 (CHR 0x00))
        \<and> map_option private_data (files s2 0x2000) = Some 0x4000
        \<and> map_option private_data (files s2 0x2800) = Some 0x5000
        \<and> map_option data (infos s2 0x4000) = Some 0x10000
        \<and> map_option data (infos s2 0x5000) = Some 0x11000)"
proof -
  have h1: "deref (files (ex_boot ''dev0'')) 0x2000 = Some \<lparr>f_name = ''dev0'', private_data = NULL\<rparr>"
    by (simp add: deref_def ex_boot_def)
  have h2: "deref (files (ex_boot ''dev0'')) 0x2800 = Some \<lparr>f_name = ''dev1'', private_data = NULL\<rparr>"
    by (simp add: deref_def ex_boot_def)
  have h3: "(0x2000 :: addr) \<noteq> 0x2800"
    by simp
  have h4: "kmalloc_ret (ex_alloc 0x4000 7 0x10000) \<noteq> NULL"
    and h5: "page_ret (ex_alloc 0x4000 7 0x10000) \<noteq> NULL"
    and h6: "kmalloc_ret (ex_alloc 0x5000 9 0x11000) \<noteq> NULL"
    and h7: "page_ret (ex_alloc 0x5000 9 0x11000) \<noteq> NULL"
    and h8: "kmalloc_ret (ex_alloc 0x5000 9 0x11000) \<noteq> kmalloc_ret (ex_alloc 0x4000 7 0x10000)"
    and h9: "page_ret (ex_alloc 0x5000 9 0x11000) \<noteq> page_ret (ex_alloc 0x4000 7 0x10000)"
    by (simp_all add: ex_alloc_def)
  have h10: "length msg + length (f_name \<lparr>f_name = ''dev0'', private_data = NULL\<rparr>) \<le> PAGE_SIZE"
    and h11: "length msg + length (f_name \<lparr>f_name = ''dev1'', private_data = NULL\<rparr>) \<le> PAGE_SIZE"
    by (simp_all add: length_msg PAGE_SIZE_def)
  from open_payload [OF h1 h2 h3 h4 h5 h6 h7 h8 h9 h10 h11, of 0]
  obtain s1 s2 where
    "my_open (ex_alloc 0x4000 7 0x10000) 0 0x2000 (ex_boot ''dev0'') = Returns (0, s1)"
    "my_open (ex_alloc 0x5000 9 0x11000) 0 0x2800 s1 = Returns (0, s2)"
    "payload 0x2000 s2 = Some (msg @ ''dev0'' @ replicate 4051 (CHR 0x00))"
    "payload 0x2800 s2 = Some (msg @ ''dev1'' @ replicate 4051 (CHR 0x00))"
    "map_option private_data (files s2 0x2000) = Some 0x4000"
    "map_option private_data (files s2 0x2800) = Some 0x5000"
    "map_option data (infos s2 0x4000) = Some 0x10000"
    "map_option data (infos s2 0x5000) = Some 0x11000"
    by (auto simp: length_msg PAGE_SIZE_def ex_alloc_def)
  with h1 h2 h10 h11 show ?thesis
    by auto
qed

section \<open>The reference count from open to teardown\<close>

text \<open>
  Claim C3 fails on the code. \<^verbatim>\<open>my_open\<close> takes the control block from \<^verbatim>\<open>kmalloc\<close>
  and never assigns \<^verbatim>\<open>info->ref\<close>; \<^verbatim>\<open>my_mmap\<close> only increments it. With a block
  that holds 5 in those bytes when it is handed out, the count after open and mmap is 6,
  where the field's own comment (mmapped times) and the claim say 1.
\<close>

theorem open_then_mmap_junk_ref:
  "result_ref 0x3000 (open_then_mmap (ex_alloc 0x4000 5 0x10000) 0 0x2000 0x3000 (ex_boot ''dev0''))
     = Some (0, Some 6)"
  by (simp add: open_then_mmap_def open_defs length_msg PAGE_SIZE_def ex_alloc_def ex_boot_def
      my_mmap_def my_vma_open_def result_ref_def refCount_def)

text \<open>
  Claim C4 fails on the code, through the same missing initialisation. With a block
  that holds -5 when it is handed out, the count is -4 right after the mapping is set
  up, -3 after a duplication and -4 after a teardown: negative at every point of an
  admissible sequence.
\<close>

theorem open_then_mmap_negative_ref:
  "admissible 1 [Ev_open, Ev_close]
   \<and> trace_after [Ev_open, Ev_close] 0x3000
       (open_then_mmap (ex_alloc 0x4000 (- 5) 0x10000) 0 0x2000 0x3000 (ex_boot ''dev0''))
       = [Some (- 4), Some (- 3), Some (- 4)]"
  by (simp add: open_then_mmap_def open_defs length_msg PAGE_SIZE_def ex_alloc_def ex_boot_def
      my_mmap_def my_vma_open_def my_vma_close_def trace_after_def refCount_def deliver_def)

text \<open>
  The counting itself is sound. Starting from a region with \<open>n\<close> interests, an
  admissible sequence that does not reach the limit of the 32-bit counter is delivered
  in full and the count is non-negative before and after every notification.
\<close>

lemma sint_of_nat_small:
  assumes "n < 2 ^ 31"
  shows "sint (of_nat n :: 32 word) = int n"
  using assms
  by (simp add: signed_of_nat signed_take_bit_int_eq_self)

lemma ref_trace_nonneg:
  assumes "deref (vmas s) vma = Some v" and "vm_ops v = Some my_vm_ops"
    and "deref (infos s) (vm_private_data v) = Some info" and "ref info = of_nat n"
    and "admissible n evs" and "n + length evs < 2 ^ 31"
  shows "length (ref_trace evs vma s) = Suc (length evs)
       \<and> (\<forall>x \<in> set (ref_trace evs vma s). \<exists>k. x = Some k \<and> 0 \<le> k)"
  using assms
proof (induction evs arbitrary: s info n)
  case Nil
  then show ?case
    by (simp add: refCount_def sint_of_nat_small)
next
  case (Cons ev evs)
  have now: "refCount vma s = Some (int n)"
    using Cons.prems by (simp add: refCount_def sint_of_nat_small)
  have p: "vma \<noteq> NULL" "vmas s vma = Some v" "vm_private_data v \<noteq> NULL"
      "infos s (vm_private_data v) = Some info"
    using Cons.prems(1,3) by (auto simp: deref_def split: if_splits)
  show ?case
  proof (cases ev)
    case Ev_open
    let ?s' = "PRINTFUNC ''my_vma_open''
                 (s\<lparr>infos := (infos s)(vm_private_data v \<mapsto> info\<lparr>ref := ref info + 1\<rparr>)\<rparr>)"
    have d: "deliver ev vma s = Returns ?s'"
      using Cons.prems Ev_open by (simp add: deliver_def my_vma_open_def)
    have "length (ref_trace evs vma ?s') = Suc (length evs)
        \<and> (\<forall>x \<in> set (ref_trace evs vma ?s'). \<exists>k. x = Some k \<and> 0 \<le> k)"
    proof (rule Cons.IH [where n = "Suc n" and info = "info\<lparr>ref := ref info + 1\<rparr>"])
      show "deref (vmas ?s') vma = Some v"
        using p by (simp add: deref_def PRINTFUNC_def pr_info_def)
      show "vm_ops v = Some my_vm_ops" by (rule Cons.prems(2))
      show "deref (infos ?s') (vm_private_data v) = Some (info\<lparr>ref := ref info + 1\<rparr>)"
        using p by (simp add: deref_def PRINTFUNC_def pr_info_def)
      show "ref (info\<lparr>ref := ref info + 1\<rparr>) = of_nat (Suc n)"
        using Cons.prems(4) by simp
      show "admissible (Suc n) evs" using Cons.prems(5) Ev_open by simp
      show "Suc n + length evs < 2 ^ 31" using Cons.prems(6) by simp
    qed
    with d now show ?thesis by simp
  next
    case Ev_close
    let ?s' = "PRINTFUNC ''my_vma_close''
                 (s\<lparr>infos := (infos s)(vm_private_data v \<mapsto> info\<lparr>ref := ref info - 1\<rparr>)\<rparr>)"
    have pos: "0 < n" and adm: "admissible (n - 1) evs"
      using Cons.prems(5) Ev_close by simp_all
    have d: "deliver ev vma s = Returns ?s'"
      using Cons.prems Ev_close by (simp add: deliver_def my_vma_close_def)
    have "length (ref_trace evs vma ?s') = Suc (length evs)
        \<and> (\<forall>x \<in> set (ref_trace evs vma ?s'). \<exists>k. x = Some k \<and> 0 \<le> k)"
    proof (rule Cons.IH [where n = "n - 1" and info = "info\<lparr>ref := ref info - 1\<rparr>"])
      show "deref (vmas ?s') vma = Some v"
        using p by (simp add: deref_def PRINTFUNC_def pr_info_def)
      show "vm_ops v = Some my_vm_ops" by (rule Cons.prems(2))
      show "deref (infos ?s') (vm_private_data v) = Some (info\<lparr>ref := ref info - 1\<rparr>)"
        using p by (simp add: deref_def PRINTFUNC_def pr_info_def)
      show "ref (info\<lparr>ref := ref info - 1\<rparr>) = of_nat (n - 1)"
        using Cons.prems(4) pos by (simp add: of_nat_diff)
      show "admissible (n - 1) evs" by (rule adm)
      show "n - 1 + length evs < 2 ^ 31" using Cons.prems(6) by simp
    qed
    with d now show ?thesis by simp
  qed
qed

text \<open>
  So, had the control block been zeroed when the handle was opened, the count would be 1
  after \<^verbatim>\<open>my_mmap\<close> and never negative afterwards.
\<close>

lemma refcount_nonneg_from_zero:
  assumes "deref (vmas s) vma = Some v" and "deref (files s) filp = Some f"
    and "deref (infos s) (private_data f) = Some info" and "ref info = 0"
    and "admissible 1 evs" and "Suc (length evs) < 2 ^ 31"
  shows "length (trace_after evs vma (my_mmap filp vma s)) = Suc (length evs)
       \<and> (\<forall>x \<in> set (trace_after evs vma (my_mmap filp vma s)). \<exists>k. x = Some k \<and> 0 \<le> k)"
proof -
  let ?v = "v\<lparr>vm_ops := Some my_vm_ops,
               vm_flags := vm_flags v OR (VM_DONTEXPAND OR VM_DONTDUMP),
               vm_private_data := private_data f\<rparr>"
  let ?s = "PRINTFUNC ''my_vma_open''
              (s\<lparr>vmas := (vmas s)(vma \<mapsto> ?v),
                 infos := (infos s)(private_data f \<mapsto> info\<lparr>ref := ref info + 1\<rparr>)\<rparr>)"
  have p: "vma \<noteq> NULL" "private_data f \<noteq> NULL"
    using assms(1,3) by (auto simp: deref_def split: if_splits)
  have m: "my_mmap filp vma s = Returns (0, ?s)"
    using assms(1-3) by (auto simp: my_mmap_def my_vma_open_def deref_def Let_def split: if_splits)
  have "length (ref_trace evs vma ?s) = Suc (length evs)
      \<and> (\<forall>x \<in> set (ref_trace evs vma ?s). \<exists>k. x = Some k \<and> 0 \<le> k)"
  proof (rule ref_trace_nonneg [where n = 1 and v = ?v and info = "info\<lparr>ref := ref info + 1\<rparr>"])
    show "deref (vmas ?s) vma = Some ?v"
      using p by (simp add: deref_def PRINTFUNC_def pr_info_def)
    show "vm_ops ?v = Some my_vm_ops" by simp
    show "deref (infos ?s) (vm_private_data ?v) = Some (info\<lparr>ref := ref info + 1\<rparr>)"
      using p by (simp add: deref_def PRINTFUNC_def pr_info_def)
    show "ref (info\<lparr>ref := ref info + 1\<rparr>) = of_nat 1" using assms(4) by simp
    show "admissible 1 evs" by (rule assms(5))
    show "1 + length evs < 2 ^ 31" using assms(6) by simp
  qed
  with m show ?thesis by (simp add: trace_after_def)
qed

end
